theory Spec2Isabelle
  imports Main "HOL-Library.Log_Nat"
begin

section \<open>Python values, exceptions and strings\<close>

text \<open>
  The scraper \<^verbatim>\<open>t3_scraper.py\<close> is a Python 3 script. Its pure core (count parsing,
  sentiment bucketing, engagement scoring, content synthesis and the per-topic loop of
  \<^verbatim>\<open>insert_fresh_data_only\<close>) is embedded here. Console output (\<^verbatim>\<open>print\<close>) and the
  calls to the remote table are not part of the embedding.

  A Python \<^verbatim>\<open>str\<close> is a \<^typ>\<open>string\<close> whose characters are the code points U+0000 to
  U+00FF, one \<^typ>\<open>char\<close> per code point, so \<^const>\<open>length\<close> is Python's \<^verbatim>\<open>len\<close>. The
  values a dictionary of the scraper holds are strings; \<open>NoneV\<close> stands for a value that is
  not a string, on which every \<^verbatim>\<open>str\<close> method raises \<^verbatim>\<open>AttributeError\<close>.
\<close>

datatype pyerror = ValueError | OverflowError | AttributeError | KeyError | ExternalError

datatype pyval = Str string | NoneV

type_synonym pydict = "string \<rightharpoonup> pyval"

text \<open>\<^verbatim>\<open>try: body except: handler\<close>, with every exception of the body caught.\<close>

definition try_except :: "pyerror + 'a \<Rightarrow> (pyerror \<Rightarrow> pyerror + 'a) \<Rightarrow> pyerror + 'a" where
  "try_except body handler = (case body of Inl e \<Rightarrow> handler e | Inr v \<Rightarrow> Inr v)"

definition bind :: "pyerror + 'a \<Rightarrow> ('a \<Rightarrow> pyerror + 'b) \<Rightarrow> pyerror + 'b" where
  "bind m f = (case m of Inl e \<Rightarrow> Inl e | Inr v \<Rightarrow> f v)"

text \<open>\<^verbatim>\<open>d.get(k, default)\<close> and \<^verbatim>\<open>d[k]\<close>.\<close>

definition dict_get :: "pydict \<Rightarrow> string \<Rightarrow> pyval \<Rightarrow> pyval" where
  "dict_get d k dflt = (case d k of None \<Rightarrow> dflt | Some v \<Rightarrow> v)"

definition dict_item :: "pydict \<Rightarrow> string \<Rightarrow> pyerror + pyval" where
  "dict_item d k = (case d k of None \<Rightarrow> Inl KeyError | Some v \<Rightarrow> Inr v)"

text \<open>\<^verbatim>\<open>str(v)\<close>, as an f-string formats a value.\<close>

definition py_str :: "pyval \<Rightarrow> string" where
  "py_str v = (case v of Str s \<Rightarrow> s | NoneV \<Rightarrow> ''None'')"

text \<open>
  \<^verbatim>\<open>s.replace(old, new)\<close> for a pattern \<open>old\<close> of one character, which is every use in
  the script.
\<close>

definition str_replace :: "char \<Rightarrow> string \<Rightarrow> string \<Rightarrow> string" where
  "str_replace old new s = concat (map (\<lambda>c. if c = old then new else [c]) s)"

text \<open>\<^verbatim>\<open>k in s\<close> for strings: \<open>k\<close> occurs in \<open>s\<close> as a contiguous substring.\<close>

fun is_prefix :: "string \<Rightarrow> string \<Rightarrow> bool" where
  "is_prefix [] s = True"
| "is_prefix (k # ks) [] = False"
| "is_prefix (k # ks) (c # cs) = (k = c \<and> is_prefix ks cs)"

fun str_in :: "string \<Rightarrow> string \<Rightarrow> bool" where
  "str_in k [] = (k = [])"
| "str_in k (c # cs) = (is_prefix k (c # cs) \<or> str_in k cs)"

text \<open>
  \<^verbatim>\<open>str.lower\<close> and \<^verbatim>\<open>str.upper\<close> on U+0000 to U+00FF. The capital of U+00DF is the two
  letters \<^verbatim>\<open>SS\<close>. The capitals of U+00B5 and U+00FF are U+039C and U+0178, beyond this
  range; the two characters are kept as they are, which the script cannot tell apart from
  their capitals: it only looks for \<^verbatim>\<open>M\<close> and \<^verbatim>\<open>K\<close> in an upper-cased string and hands
  it to \<^verbatim>\<open>float\<close>, which rejects all four characters alike.
\<close>

definition lower_char :: "char \<Rightarrow> char" where
  "lower_char c =
     (let n = (of_char c :: nat)
      in if (65 \<le> n \<and> n \<le> 90) \<or> (192 \<le> n \<and> n \<le> 222 \<and> n \<noteq> 215)
         then char_of (n + 32) else c)"

definition str_lower :: "string \<Rightarrow> string" where
  "str_lower s = map lower_char s"

definition upper_char :: "char \<Rightarrow> string" where
  "upper_char c =
     (let n = (of_char c :: nat)
      in if (97 \<le> n \<and> n \<le> 122) \<or> (224 \<le> n \<and> n \<le> 254 \<and> n \<noteq> 247)
         then [char_of (n - 32)]
         else if n = 223 then ''SS'' else [c])"

definition str_upper :: "string \<Rightarrow> string" where
  "str_upper s = concat (map upper_char s)"

text \<open>
  \<^verbatim>\<open>str.isdigit\<close>: the ASCII digits and the superscripts U+00B2, U+00B3 and U+00B9, which
  are digits for \<^verbatim>\<open>isdigit\<close> but which \<^verbatim>\<open>int\<close> rejects.
\<close>

definition ascii_digit :: "char \<Rightarrow> bool" where
  "ascii_digit c = (48 \<le> (of_char c :: nat) \<and> (of_char c :: nat) \<le> 57)"

definition isdigit :: "char \<Rightarrow> bool" where
  "isdigit c = (ascii_digit c \<or> (of_char c :: nat) \<in> {178, 179, 185})"

definition digit_value :: "char \<Rightarrow> int" where
  "digit_value c = of_char c - 48"

definition int_of_digits :: "string \<Rightarrow> int" where
  "int_of_digits ds = foldl (\<lambda>n c. 10 * n + digit_value c) 0 ds"

text \<open>
  \<^verbatim>\<open>int(s)\<close> for a string \<open>s\<close> of \<^verbatim>\<open>isdigit\<close> characters, which is what the script
  converts. The empty string and a superscript digit raise \<^verbatim>\<open>ValueError\<close>, and so does a
  string of more than 640 digits that is longer than the interpreter's limit
  \<^verbatim>\<open>sys.get_int_max_str_digits()\<close>; the limit is the parameter \<open>maxd\<close>, 0 for none.
\<close>

definition py_int :: "nat \<Rightarrow> string \<Rightarrow> pyerror + int" where
  "py_int maxd s =
     (if s = [] \<or> \<not> list_all ascii_digit s then Inl ValueError
      else if 640 < length s \<and> 0 < maxd \<and> maxd < length s then Inl ValueError
      else Inr (int_of_digits s))"

section \<open>Floating-point numbers\<close>

text \<open>
  A Python \<^verbatim>\<open>float\<close> is an IEEE 754 binary64 number: a finite one is given by its exact
  rational value, and the two zeros are one value (the script compares floats, adds them
  and truncates them, none of which tells the zeros apart). Every operation computes the
  exact result and rounds it to the nearest binary64 number, ties to the even mantissa.
\<close>

datatype pyfloat = Finite rat | PosInf | NegInf | NaN

definition round_half_even :: "rat \<Rightarrow> int" where
  "round_half_even x =
     (let f = \<lfloor>x\<rfloor>; r = x - of_int f
      in if r < 1 / 2 then f else if 1 / 2 < r then f + 1
         else if even f then f else f + 1)"

text \<open>For \<open>0 < q\<close>, the exponent \<open>e\<close> with \<open>2 powi e \<le> q < 2 powi (e + 1)\<close>.\<close>

definition floor_log2 :: "rat \<Rightarrow> int" where
  "floor_log2 q =
     (let (a, b) = quotient_of q;
          d = bitlen a - bitlen b
      in if 2 powi d \<le> q then d else d - 1)"

text \<open>
  Rounding \<open>0 < q\<close> to 53 significant bits, with the unit in the last place no smaller
  than \<open>2 powi (- 1074)\<close> (the subnormal numbers).
\<close>

definition round_pos :: "rat \<Rightarrow> rat" where
  "round_pos q =
     (let p = max (floor_log2 q - 52) (- 1074)
      in of_int (round_half_even (q / 2 powi p)) * 2 powi p)"

definition round_double :: "rat \<Rightarrow> pyfloat" where
  "round_double q =
     (if q = 0 then Finite 0
      else let r = round_pos \<bar>q\<bar>
           in if of_int (2 ^ 1024) \<le> r then (if q < 0 then NegInf else PosInf)
              else Finite (if q < 0 then - r else r))"

definition fl_neg :: "pyfloat \<Rightarrow> pyfloat" where
  "fl_neg x = (case x of Finite a \<Rightarrow> Finite (- a) | PosInf \<Rightarrow> NegInf
                 | NegInf \<Rightarrow> PosInf | NaN \<Rightarrow> NaN)"

fun fl_add :: "pyfloat \<Rightarrow> pyfloat \<Rightarrow> pyfloat" where
  "fl_add (Finite a) (Finite b) = round_double (a + b)"
| "fl_add NaN y = NaN"
| "fl_add x NaN = NaN"
| "fl_add PosInf NegInf = NaN"
| "fl_add NegInf PosInf = NaN"
| "fl_add PosInf y = PosInf"
| "fl_add NegInf y = NegInf"
| "fl_add x PosInf = PosInf"
| "fl_add x NegInf = NegInf"

fun fl_mul :: "pyfloat \<Rightarrow> pyfloat \<Rightarrow> pyfloat" where
  "fl_mul (Finite a) (Finite b) = round_double (a * b)"
| "fl_mul NaN y = NaN"
| "fl_mul x NaN = NaN"
| "fl_mul (Finite a) PosInf = (if a = 0 then NaN else if 0 < a then PosInf else NegInf)"
| "fl_mul (Finite a) NegInf = (if a = 0 then NaN else if 0 < a then NegInf else PosInf)"
| "fl_mul PosInf (Finite b) = (if b = 0 then NaN else if 0 < b then PosInf else NegInf)"
| "fl_mul NegInf (Finite b) = (if b = 0 then NaN else if 0 < b then NegInf else PosInf)"
| "fl_mul PosInf PosInf = PosInf"
| "fl_mul NegInf NegInf = PosInf"
| "fl_mul PosInf NegInf = NegInf"
| "fl_mul NegInf PosInf = NegInf"

text \<open>\<^verbatim>\<open>x < y\<close>; a comparison with a NaN is false.\<close>

fun fl_less :: "pyfloat \<Rightarrow> pyfloat \<Rightarrow> bool" where
  "fl_less (Finite a) (Finite b) = (a < b)"
| "fl_less NaN y = False"
| "fl_less x NaN = False"
| "fl_less x NegInf = False"
| "fl_less PosInf y = False"
| "fl_less NegInf y = True"
| "fl_less x PosInf = True"

text \<open>
  \<^verbatim>\<open>max(a, b)\<close> and \<^verbatim>\<open>min(a, b)\<close> keep the first argument unless the second is strictly
  greater (smaller). An \<^verbatim>\<open>int\<close> argument such as 5 is the float of the same value.
\<close>

definition py_max :: "pyfloat \<Rightarrow> pyfloat \<Rightarrow> pyfloat" where
  "py_max a b = (if fl_less a b then b else a)"

definition py_min :: "pyfloat \<Rightarrow> pyfloat \<Rightarrow> pyfloat" where
  "py_min a b = (if fl_less b a then b else a)"

text \<open>
  \<^verbatim>\<open>a / b\<close> on integers with \<open>b \<noteq> 0\<close>: the correctly rounded quotient, or \<^verbatim>\<open>OverflowError\<close>
  when it is too large for a float.
\<close>

definition int_true_divide :: "int \<Rightarrow> int \<Rightarrow> pyerror + pyfloat" where
  "int_true_divide a b =
     (case round_double (of_int a / of_int b) of
        Finite r \<Rightarrow> Inr (Finite r)
      | _ \<Rightarrow> Inl OverflowError)"

text \<open>\<^verbatim>\<open>int(x)\<close> on a float truncates towards zero.\<close>

definition int_of_float :: "pyfloat \<Rightarrow> pyerror + int" where
  "int_of_float x =
     (case x of Finite r \<Rightarrow> Inr (if 0 \<le> r then \<lfloor>r\<rfloor> else - \<lfloor>- r\<rfloor>)
      | PosInf \<Rightarrow> Inl OverflowError | NegInf \<Rightarrow> Inl OverflowError
      | NaN \<Rightarrow> Inl ValueError)"

text \<open>
  \<^verbatim>\<open>round(x, 2)\<close>: the exact value of \<open>x\<close> is rounded to two decimals, ties to the even
  digit, and the decimal is converted back to the nearest float. Infinities and NaN round
  to themselves.
\<close>

definition py_round2 :: "pyfloat \<Rightarrow> pyfloat" where
  "py_round2 x =
     (case x of Finite r \<Rightarrow> round_double (of_int (round_half_even (r * 100)) / 100)
      | _ \<Rightarrow> x)"

section \<open>The conversion \<^verbatim>\<open>float(s)\<close> of a string\<close>

text \<open>
  CPython converts a string in four steps. (1) In a string that is not pure ASCII, a
  character from U+007F on that is white space (U+0085, U+00A0) becomes a blank, and at the
  first other such character the string is cut and ends with \<^verbatim>\<open>?\<close>. (2) Underscores are
  removed; each must stand between two ASCII digits. (3) ASCII white space is stripped at
  both ends. (4) What is left must be, as a whole, a decimal literal (sign, digits with an
  optional point, optional exponent) or a signed \<^verbatim>\<open>inf\<close>, \<^verbatim>\<open>infinity\<close> or \<^verbatim>\<open>nan\<close> in
  any letter case. The value of a decimal literal is its exact value, rounded once.
\<close>

definition unicode_space :: "char \<Rightarrow> bool" where
  "unicode_space c = ((of_char c :: nat) \<in> {133, 160})"

fun transform_decimal_and_space :: "string \<Rightarrow> string" where
  "transform_decimal_and_space [] = []"
| "transform_decimal_and_space (c # cs) =
     (if (of_char c :: nat) < 127 then c # transform_decimal_and_space cs
      else if unicode_space c then CHR '' '' # transform_decimal_and_space cs
      else ''?'')"

definition to_ascii :: "string \<Rightarrow> string" where
  "to_ascii s = (if list_all (\<lambda>c. (of_char c :: nat) < 128) s then s
                 else transform_decimal_and_space s)"

fun strip_underscores :: "char \<Rightarrow> string \<Rightarrow> string option" where
  "strip_underscores prev [] = (if prev = CHR ''_'' then None else Some [])"
| "strip_underscores prev (c # cs) =
     (if c = CHR ''_''
      then (if ascii_digit prev then strip_underscores c cs else None)
      else if prev = CHR ''_'' \<and> \<not> ascii_digit c then None
      else map_option ((#) c) (strip_underscores c cs))"

definition c_space :: "char \<Rightarrow> bool" where
  "c_space c = ((9 \<le> (of_char c :: nat) \<and> (of_char c :: nat) \<le> 13) \<or> c = CHR '' '')"

definition strip_space :: "string \<Rightarrow> string" where
  "strip_space s = rev (dropWhile c_space (rev (dropWhile c_space s)))"

definition parse_sign :: "string \<Rightarrow> bool \<times> string" where
  "parse_sign s =
     (case s of [] \<Rightarrow> (False, [])
      | c # r \<Rightarrow> if c = CHR ''-'' then (True, r)
                 else if c = CHR ''+'' then (False, r) else (False, s))"

text \<open>
  An exponent part is read only when at least one digit follows the \<^verbatim>\<open>e\<close> and its sign;
  otherwise nothing is consumed.
\<close>

definition parse_exponent :: "string \<Rightarrow> int \<times> string" where
  "parse_exponent s =
     (case s of [] \<Rightarrow> (0, [])
      | c # r \<Rightarrow>
          if c = CHR ''e'' \<or> c = CHR ''E''
          then (let (neg, r') = parse_sign r; ds = takeWhile ascii_digit r'
                in if ds = [] then (0, s)
                   else ((if neg then - int_of_digits ds else int_of_digits ds),
                         dropWhile ascii_digit r'))
          else (0, s))"

text \<open>
  The decimal literal at the start of a string: its value and the rest of the string, or
  \<open>None\<close> when there is no digit.
\<close>

definition dg_strtod :: "string \<Rightarrow> (pyfloat \<times> string) option" where
  "dg_strtod s00 =
     (let (neg, s) = parse_sign s00;
          ip = takeWhile ascii_digit s;
          s1 = dropWhile ascii_digit s;
          (fp, s2) = (case s1 of [] \<Rightarrow> ([], [])
                      | c # r \<Rightarrow> if c = CHR ''.''
                                 then (takeWhile ascii_digit r, dropWhile ascii_digit r)
                                 else ([], s1))
      in if ip = [] \<and> fp = [] then None
         else let (e, s3) = parse_exponent s2;
                  mag = of_int (int_of_digits (ip @ fp)) * 10 powi (e - int (length fp))
              in Some (round_double (if neg then - mag else mag), s3))"

definition ascii_lower :: "char \<Rightarrow> char" where
  "ascii_lower c = (let n = (of_char c :: nat)
                    in if 65 \<le> n \<and> n \<le> 90 then char_of (n + 32) else c)"

definition case_insensitive_match :: "string \<Rightarrow> string \<Rightarrow> bool" where
  "case_insensitive_match s t = is_prefix t (map ascii_lower s)"

definition parse_inf_or_nan :: "string \<Rightarrow> (pyfloat \<times> string) option" where
  "parse_inf_or_nan p =
     (let (neg, s) = parse_sign p
      in if case_insensitive_match s ''inf''
         then (let s' = drop 3 s;
                   s'' = (if case_insensitive_match s' ''inity'' then drop 5 s' else s')
               in Some (if neg then NegInf else PosInf, s''))
         else if case_insensitive_match s ''nan'' then Some (NaN, drop 3 s)
         else None)"

definition ascii_strtod :: "string \<Rightarrow> (pyfloat \<times> string) option" where
  "ascii_strtod s = (case dg_strtod s of Some r \<Rightarrow> Some r | None \<Rightarrow> parse_inf_or_nan s)"

definition py_float :: "string \<Rightarrow> pyerror + pyfloat" where
  "py_float str =
     (case strip_underscores (CHR 0x00) (to_ascii str) of
        None \<Rightarrow> Inl ValueError
      | Some s \<Rightarrow>
          (case ascii_strtod (strip_space s) of
             None \<Rightarrow> Inl ValueError
           | Some (x, rest) \<Rightarrow> if rest = [] then Inr x else Inl ValueError))"

section \<open>The Count Parser: \<^verbatim>\<open>parse_post_count\<close>\<close>

text \<open>
  \<^verbatim>\<open>
  def parse_post_count(count_str):
      if count_str == "N/A" or not count_str:
          return 0
      try:
          count_clean = count_str.replace(',', '')
          if 'M' in count_clean.upper():
              return int(float(count_clean.upper().replace('M', '')) * 1000000)
          elif 'K' in count_clean.upper():
              return int(float(count_clean.upper().replace('K', '')) * 1000)
          else:
              return int(''.join(filter(str.isdigit, count_clean)))
      except:
          return 0
  \<close>
\<close>

definition scaled_count :: "char \<Rightarrow> rat \<Rightarrow> string \<Rightarrow> pyerror + int" where
  "scaled_count suffix factor count_clean =
     bind (py_float (str_replace suffix [] (str_upper count_clean)))
       (\<lambda>x. int_of_float (fl_mul x (Finite factor)))"

definition parse_post_count_try :: "nat \<Rightarrow> pyval \<Rightarrow> pyerror + int" where
  "parse_post_count_try maxd count_str =
     (case count_str of
        NoneV \<Rightarrow> Inl AttributeError
      | Str s \<Rightarrow>
          (let count_clean = str_replace (CHR '','') [] s
           in if str_in ''M'' (str_upper count_clean)
              then scaled_count (CHR ''M'') 1000000 count_clean
              else if str_in ''K'' (str_upper count_clean)
              then scaled_count (CHR ''K'') 1000 count_clean
              else py_int maxd (filter isdigit count_clean)))"

definition falsy :: "pyval \<Rightarrow> bool" where
  "falsy v = (case v of Str s \<Rightarrow> s = [] | NoneV \<Rightarrow> True)"

definition parse_post_count :: "nat \<Rightarrow> pyval \<Rightarrow> pyerror + int" where
  "parse_post_count maxd count_str =
     (if count_str = Str ''N/A'' \<or> falsy count_str then Inr 0
      else try_except (parse_post_count_try maxd count_str) (\<lambda>e. Inr 0))"

section \<open>The Sentiment Analyzer: \<^verbatim>\<open>analyze_hashtag_sentiment\<close>\<close>

text \<open>
  \<^verbatim>\<open>
  def analyze_hashtag_sentiment(hashtag):
      try:
          clean_text = hashtag.replace('#', '').replace('_', ' ')
          blob = TextBlob(clean_text)
          polarity = blob.sentiment.polarity
          if polarity > 0.05:
              sentiment = "Positive"
          elif polarity < -0.05:
              sentiment = "Negative"
          else:
              sentiment = "Neutral"
          return sentiment, polarity
      except Exception as e:
          return "Neutral", 0.0
  \<close>
  The polarity comes from the TextBlob library, which is not part of the script: it is the
  parameter \<open>polarity_of\<close>, a function that returns a float or raises. The literal
  \<^verbatim>\<open>0.05\<close> is the float nearest to \<open>5 / 100\<close>.
\<close>

definition lit_0_05 :: pyfloat where
  "lit_0_05 = round_double (5 / 100)"

definition analyze_hashtag_sentiment_try ::
  "(string \<Rightarrow> pyerror + pyfloat) \<Rightarrow> pyval \<Rightarrow> pyerror + string \<times> pyfloat" where
  "analyze_hashtag_sentiment_try polarity_of hashtag =
     (case hashtag of
        NoneV \<Rightarrow> Inl AttributeError
      | Str h \<Rightarrow>
          (let clean_text = str_replace (CHR ''_'') '' '' (str_replace (CHR ''#'') [] h)
           in bind (polarity_of clean_text)
                (\<lambda>polarity.
                   Inr (if fl_less lit_0_05 polarity then ''Positive''
                        else if fl_less polarity (fl_neg lit_0_05) then ''Negative''
                        else ''Neutral'',
                        polarity))))"

definition analyze_hashtag_sentiment ::
  "(string \<Rightarrow> pyerror + pyfloat) \<Rightarrow> pyval \<Rightarrow> pyerror + string \<times> pyfloat" where
  "analyze_hashtag_sentiment polarity_of hashtag =
     try_except (analyze_hashtag_sentiment_try polarity_of hashtag)
       (\<lambda>e. Inr (''Neutral'', Finite 0))"

section \<open>The Engagement Scorer: \<^verbatim>\<open>calculate_engagement_score\<close>\<close>

text \<open>
  \<^verbatim>\<open>
  def calculate_engagement_score(topic_data):
      try:
          topic = topic_data.get("topic", "")
          count_str = topic_data.get("count", "N/A")
          engagement_score = 1.0
          if count_str != "N/A" and count_str:
              try:
                  count_clean = count_str.replace('K', '000').replace('M', '000000').replace(',', '')
                  count_clean = ''.join(filter(str.isdigit, count_clean))
                  if count_clean:
                      tweet_count = int(count_clean)
                      if tweet_count > 0:
                          engagement_score += min(5, max(0, (tweet_count / 10000) * 2))
              except:
                  pass
          topic_lower = topic.lower()
          trending_keywords = ['election', 'breaking', 'urgent', 'live', 'update', 'news']
          if any(keyword in topic_lower for keyword in trending_keywords):
              engagement_score += 1.5
          indian_keywords = ['india', 'indian', 'bharath', 'delhi', 'mumbai', 'modi', 'bjp', 'congress']
          if any(keyword in topic_lower for keyword in indian_keywords):
              engagement_score += 1.0
          if len(topic) > 15:
              engagement_score += 0.5
          if any(char in topic for char in ['2024', '2023', '!', '@']):
              engagement_score += 0.5
          engagement_score = max(1, min(10, round(engagement_score, 2)))
          return float(engagement_score)
      except Exception as e:
          return 1.0
  \<close>
\<close>

text \<open>The scorer's own reading of the count string: the digits it hands to \<^verbatim>\<open>int\<close>.\<close>

definition score_count_clean :: "string \<Rightarrow> string" where
  "score_count_clean count_str =
     filter isdigit
       (str_replace (CHR '','') []
          (str_replace (CHR ''M'') ''000000'' (str_replace (CHR ''K'') ''000'' count_str)))"

text \<open>
  The inner \<^verbatim>\<open>try\<close> block, from the score so far to the score after it; \<open>tweet_count\<close>
  is the integer the scorer takes the count to be.
\<close>

definition score_tweet_count :: "nat \<Rightarrow> string \<Rightarrow> pyerror + int" where
  "score_tweet_count maxd count_str = py_int maxd (score_count_clean count_str)"

definition add_count_score_try :: "nat \<Rightarrow> pyval \<Rightarrow> pyfloat \<Rightarrow> pyerror + pyfloat" where
  "add_count_score_try maxd count_str engagement_score =
     (case count_str of
        NoneV \<Rightarrow> Inl AttributeError
      | Str s \<Rightarrow>
          if score_count_clean s \<noteq> []
          then bind (score_tweet_count maxd s)
                 (\<lambda>tweet_count.
                    if 0 < tweet_count
                    then bind (int_true_divide tweet_count 10000)
                           (\<lambda>q. Inr (fl_add engagement_score
                                         (py_min (Finite 5)
                                            (py_max (Finite 0) (fl_mul q (Finite 2))))))
                    else Inr engagement_score)
          else Inr engagement_score)"

definition add_count_score :: "nat \<Rightarrow> pyval \<Rightarrow> pyfloat \<Rightarrow> pyerror + pyfloat" where
  "add_count_score maxd count_str engagement_score =
     try_except (add_count_score_try maxd count_str engagement_score)
       (\<lambda>e. Inr engagement_score)"

definition trending_keywords :: "string list" where
  "trending_keywords = [''election'', ''breaking'', ''urgent'', ''live'', ''update'', ''news'']"

definition indian_keywords :: "string list" where
  "indian_keywords =
     [''india'', ''indian'', ''bharath'', ''delhi'', ''mumbai'', ''modi'', ''bjp'', ''congress'']"

definition any_in :: "string list \<Rightarrow> string \<Rightarrow> bool" where
  "any_in keywords s = list_ex (\<lambda>keyword. str_in keyword s) keywords"

text \<open>\<^verbatim>\<open>if cond: engagement_score += bonus\<close>.\<close>

definition add_if :: "bool \<Rightarrow> pyfloat \<Rightarrow> pyfloat \<Rightarrow> pyfloat" where
  "add_if cond bonus engagement_score =
     (if cond then fl_add engagement_score bonus else engagement_score)"

definition calculate_engagement_score_try :: "nat \<Rightarrow> pydict \<Rightarrow> pyerror + pyfloat" where
  "calculate_engagement_score_try maxd topic_data =
     (let topic = dict_get topic_data ''topic'' (Str []);
          count_str = dict_get topic_data ''count'' (Str ''N/A'')
      in bind (if count_str \<noteq> Str ''N/A'' \<and> \<not> falsy count_str
               then add_count_score maxd count_str (Finite 1)
               else Inr (Finite 1))
           (\<lambda>s1. case topic of
                    NoneV \<Rightarrow> Inl AttributeError
                  | Str t \<Rightarrow>
                      (let topic_lower = str_lower t;
                           s2 = add_if (any_in trending_keywords topic_lower) (Finite (3 / 2)) s1;
                           s3 = add_if (any_in indian_keywords topic_lower) (Finite 1) s2;
                           s4 = add_if (15 < length t) (Finite (1 / 2)) s3;
                           s5 = add_if (any_in [''2024'', ''2023'', ''!'', ''@''] t)
                                  (Finite (1 / 2)) s4
                       in Inr (py_max (Finite 1) (py_min (Finite 10) (py_round2 s5))))))"

definition calculate_engagement_score :: "nat \<Rightarrow> pydict \<Rightarrow> pyerror + pyfloat" where
  "calculate_engagement_score maxd topic_data =
     try_except (calculate_engagement_score_try maxd topic_data) (\<lambda>e. Inr (Finite 1))"

section \<open>The Content Synthesizer: \<^verbatim>\<open>get_hashtag_post_content\<close>\<close>

text \<open>
  \<^verbatim>\<open>
  def get_hashtag_post_content(hashtag):
      try:
          hashtag_clean = hashtag.replace('#', '')
          sample_contents = { 'election': f"...", ..., 'default': f"..." }
          hashtag_lower = hashtag_clean.lower()
          for key, content in sample_contents.items():
              if key in hashtag_lower:
                  return content
          return sample_contents['default']
      except Exception as e:
          return f"Trending topic: {hashtag}. Join the discussion."
  \<close>
  The dictionary is an association list in the order of the literal, which is the order
  in which \<^verbatim>\<open>items()\<close> runs through it.
\<close>

definition sample_contents :: "string \<Rightarrow> (string \<times> string) list" where
  "sample_contents hashtag_clean =
     [(''election'', ''Breaking: Major developments in '' @ hashtag_clean
          @ ''. Citizens actively participating in democratic process.''),
      (''flood'', ''Emergency update on '' @ hashtag_clean
          @ ''. Relief operations underway, stay safe and follow official guidelines.''),
      (''dharma'', ''Spiritual discourse on '' @ hashtag_clean
          @ ''. Ancient wisdom for modern times.''),
      (''football'', ''Exciting match updates for '' @ hashtag_clean
          @ ''. Team performance analysis and fan reactions.''),
      (''bollywood'', ''Latest entertainment news about '' @ hashtag_clean
          @ ''. Celebrity updates and movie reviews.''),
      (''batra'', ''Tribute to heroes in '' @ hashtag_clean
          @ ''. Remembering courage and sacrifice for the nation.''),
      (''default'', ''Trending discussion about '' @ hashtag_clean
          @ ''. Join the conversation and share your thoughts.'')]"

fun first_content :: "(string \<times> string) list \<Rightarrow> string \<Rightarrow> string option" where
  "first_content [] hashtag_lower = None"
| "first_content ((key, content) # rest) hashtag_lower =
     (if str_in key hashtag_lower then Some content else first_content rest hashtag_lower)"

definition get_hashtag_post_content_try :: "pyval \<Rightarrow> pyerror + string" where
  "get_hashtag_post_content_try hashtag =
     (case hashtag of
        NoneV \<Rightarrow> Inl AttributeError
      | Str h \<Rightarrow>
          (let hashtag_clean = str_replace (CHR ''#'') [] h;
               contents = sample_contents hashtag_clean;
               hashtag_lower = str_lower hashtag_clean
           in case first_content contents hashtag_lower of
                Some content \<Rightarrow> Inr content
              | None \<Rightarrow> (case map_of contents ''default'' of
                           Some content \<Rightarrow> Inr content
                         | None \<Rightarrow> Inl KeyError)))"

definition get_hashtag_post_content :: "pyval \<Rightarrow> pyerror + string" where
  "get_hashtag_post_content hashtag =
     try_except (get_hashtag_post_content_try hashtag)
       (\<lambda>e. Inr (''Trending topic: '' @ py_str hashtag @ ''. Join the discussion.''))"

section \<open>The pipeline: \<^verbatim>\<open>insert_fresh_data_only\<close>\<close>

text \<open>
  \<^verbatim>\<open>
  def generate_twitter_search_link(topic):
      return f"https://twitter.com/search?q={topic.replace('#', '%23')}"
  \<close>
\<close>

definition generate_twitter_search_link :: "pyval \<Rightarrow> pyerror + string" where
  "generate_twitter_search_link topic =
     (case topic of
        NoneV \<Rightarrow> Inl AttributeError
      | Str t \<Rightarrow> Inr (''https://twitter.com/search?q='' @ str_replace (CHR ''#'') ''%23'' t))"

text \<open>
  The loop of \<^verbatim>\<open>insert_fresh_data_only\<close> builds one dictionary per topic and appends
  it to \<^verbatim>\<open>processed_topics\<close>:
  \<^verbatim>\<open>
  for i, topic in enumerate(topics_list):
      print(f"  {i+1}. Processing: {topic['topic']}")
      engagement_score = calculate_engagement_score(topic)
      sentiment_label, sentiment_polarity = analyze_hashtag_sentiment(topic["topic"])
      twitter_link = topic.get("twitter_link", generate_twitter_search_link(topic["topic"]))
      post_content = get_hashtag_post_content(topic["topic"])
      posts_count = parse_post_count(topic["count"])
      metadata = {"twitter_link": twitter_link, "post_content": post_content,
                  "raw_count": topic["count"]}
      processed_topic = {"platform": "Twitter", "topic_hashtag": topic["topic"],
          "engagement_score": float(engagement_score),
          "sentiment_polarity": float(sentiment_polarity),
          "sentiment_label": str(sentiment_label), "posts": int(posts_count),
          "views": 0, "metadata": metadata, "version_id": SCRAPE_VERSION_ID}
      processed_topics.append(processed_topic)
  \<close>
  The global \<^verbatim>\<open>SCRAPE_VERSION_ID\<close>, a UUID drawn once when the script starts, is the
  parameter \<open>scrape_version_id\<close>.
\<close>

record trend_metadata =
  twitter_link :: pyval
  post_content :: string
  raw_count :: pyval

record processed_topic =
  platform :: string
  topic_hashtag :: pyval
  engagement_score :: pyfloat
  sentiment_polarity :: pyfloat
  sentiment_label :: string
  posts :: int
  views :: int
  metadata :: trend_metadata
  version_id :: string

definition process_topic ::
  "nat \<Rightarrow> (string \<Rightarrow> pyerror + pyfloat) \<Rightarrow> string \<Rightarrow> pydict \<Rightarrow> pyerror + processed_topic" where
  "process_topic maxd polarity_of scrape_version_id topic =
     bind (dict_item topic ''topic'') (\<lambda>tp.
     bind (calculate_engagement_score maxd topic) (\<lambda>score.
     bind (analyze_hashtag_sentiment polarity_of tp) (\<lambda>(label, polarity).
     bind (generate_twitter_search_link tp) (\<lambda>link.
     bind (get_hashtag_post_content tp) (\<lambda>content.
     bind (dict_item topic ''count'') (\<lambda>cnt.
     bind (parse_post_count maxd cnt) (\<lambda>posts_count.
       Inr \<lparr>platform = ''Twitter'', topic_hashtag = tp, engagement_score = score,
            sentiment_polarity = polarity, sentiment_label = label, posts = posts_count,
            views = 0,
            metadata = \<lparr>twitter_link = dict_get topic ''twitter_link'' (Str link),
                        post_content = content, raw_count = cnt\<rparr>,
            version_id = scrape_version_id\<rparr>)))))))"

fun process_topics ::
  "nat \<Rightarrow> (string \<Rightarrow> pyerror + pyfloat) \<Rightarrow> string \<Rightarrow> pydict list \<Rightarrow> processed_topic list
     \<Rightarrow> pyerror + processed_topic list" where
  "process_topics maxd polarity_of vid [] processed_topics = Inr processed_topics"
| "process_topics maxd polarity_of vid (topic # rest) processed_topics =
     bind (process_topic maxd polarity_of vid topic)
       (\<lambda>processed. process_topics maxd polarity_of vid rest (processed_topics @ [processed]))"

text \<open>
  The rows that \<^verbatim>\<open>insert_fresh_data_only\<close> hands to the table's \<^verbatim>\<open>insert\<close>; \<open>None\<close>
  when it does not call \<^verbatim>\<open>insert\<close>: for an empty list it returns at once, and an
  exception in the loop is caught by the \<^verbatim>\<open>except\<close> around it.
\<close>

definition insert_fresh_data_only ::
  "nat \<Rightarrow> (string \<Rightarrow> pyerror + pyfloat) \<Rightarrow> string \<Rightarrow> pydict list \<Rightarrow> processed_topic list option" where
  "insert_fresh_data_only maxd polarity_of vid topics_list =
     (if topics_list = [] then None
      else case process_topics maxd polarity_of vid topics_list [] of
             Inl e \<Rightarrow> None
           | Inr processed_topics \<Rightarrow> Some processed_topics)"

text \<open>
  A raw trend, as \<^verbatim>\<open>get_trending_topics\<close> builds it: a dictionary whose \<^verbatim>\<open>topic\<close> and
  \<^verbatim>\<open>count\<close> are strings.
\<close>

definition raw_trend :: "pydict \<Rightarrow> bool" where
  "raw_trend d =
     (case (d ''topic'', d ''count'') of
        (Some (Str t), Some (Str c)) \<Rightarrow> True
      | _ \<Rightarrow> False)"

section \<open>Exceptions: \<^verbatim>\<open>try\<close> and sequencing\<close>

lemma try_except_Inr [simp]: "try_except (Inr v) h = Inr v"
  by (simp add: try_except_def)

lemma try_except_Inl [simp]: "try_except (Inl e) h = h e"
  by (simp add: try_except_def)

lemma bind_Inr [simp]: "bind (Inr v) f = f v"
  by (simp add: bind_def)

lemma bind_Inl [simp]: "bind (Inl e) f = Inl e"
  by (simp add: bind_def)

lemma bind_eq_Inr: "bind m f = Inr y \<longleftrightarrow> (\<exists>v. m = Inr v \<and> f v = Inr y)"
  by (cases m) simp_all


section \<open>Rounding to the nearest float\<close>

text \<open>
  Rounding never crosses an integer, and it never crosses a multiple of one half below 16:
  such a bound is itself a float with the same or a coarser unit in the last place.
\<close>

lemma round_half_even_nonneg: "0 \<le> x \<Longrightarrow> 0 \<le> round_half_even x"
  by (auto simp: round_half_even_def Let_def)

lemma round_half_even_le:
  assumes "x \<le> of_int n"
  shows "round_half_even x \<le> n"
proof -
  have f: "\<lfloor>x\<rfloor> \<le> n" using assms by (simp add: floor_le_iff)
  show ?thesis
  proof (cases "x - of_int \<lfloor>x\<rfloor> < 1 / 2")
    case True
    then show ?thesis using f by (simp add: round_half_even_def Let_def)
  next
    case False
    then have "x \<noteq> of_int n" by auto
    with assms have "x < of_int n" by simp
    then have "\<lfloor>x\<rfloor> < n" by (simp add: floor_less_iff)
    then show ?thesis by (auto simp: round_half_even_def Let_def)
  qed
qed

lemma floor_log2_le:
  assumes "0 < q"
  shows "2 powi (floor_log2 q) \<le> q"
proof -
  obtain a b where ab: "quotient_of q = (a, b)" by (cases "quotient_of q")
  then have q: "q = of_int a / of_int b" and b: "0 < b"
    by (simp_all add: quotient_of_div quotient_of_denom_pos)
  from assms q b have a: "0 < a" by (simp add: zero_less_divide_iff)
  define d where "d = bitlen a - bitlen b"
  have fl: "floor_log2 q = (if 2 powi d \<le> q then d else d - 1)"
    by (simp add: floor_log2_def ab d_def)
  show ?thesis
  proof (cases "2 powi d \<le> q")
    case True
    then show ?thesis by (simp add: fl)
  next
    case False
    have la: "1 \<le> bitlen a" and lb: "1 \<le> bitlen b"
      using a b by (simp_all add: bitlen_alt_def)
    have 1: "(2::rat) ^ nat (bitlen a - 1) \<le> of_int a"
      using bitlen_bounds[OF a] by (metis of_int_le_iff of_int_numeral of_int_power)
    have 2: "of_int b < (2::rat) ^ nat (bitlen b)"
      using bitlen_bounds[OF b] by (metis of_int_less_iff of_int_numeral of_int_power)
    have "(2::rat) powi (d - 1) = 2 powi ((bitlen a - 1) - bitlen b)"
      by (simp add: d_def algebra_simps)
    also have "\<dots> = 2 powi (bitlen a - 1) / 2 powi bitlen b"
      by (rule power_int_diff) simp
    also have "\<dots> = 2 ^ nat (bitlen a - 1) / 2 ^ nat (bitlen b)"
      using la lb by (simp add: power_int_def)
    also have "\<dots> \<le> of_int a / of_int b"
      using 1 2 a b by (intro frac_le) simp_all
    finally have "2 powi (d - 1) \<le> q" by (simp only: q)
    with False show ?thesis by (simp only: fl if_False)
  qed
qed

lemma floor_log2_less:
  assumes "0 < q" "q < 2 powi n"
  shows "floor_log2 q < n"
proof (rule ccontr)
  assume "\<not> floor_log2 q < n"
  then have "n \<le> floor_log2 q" by simp
  then have "(2::rat) powi n \<le> 2 powi (floor_log2 q)" by (intro power_int_increasing) simp_all
  with floor_log2_le[OF assms(1)] assms(2) show False by simp
qed

lemma round_pos_nonneg: "0 < q \<Longrightarrow> 0 \<le> round_pos q"
  by (simp add: round_pos_def Let_def round_half_even_nonneg zero_le_mult_iff)


lemma round_pos_le_half:
  assumes "0 < x" "x \<le> of_int k / 2" "k \<le> 31"
  shows "round_pos x \<le> of_int k / 2"
proof -
  define p where "p = max (floor_log2 x - 52) (- 1074)"
  have "x < 2 powi 4" using assms by simp
  then have "floor_log2 x < 4" using assms(1) by (rule floor_log2_less[rotated])
  then have p: "p < 0" "- 1074 \<le> p" by (simp_all add: p_def)
  define P :: rat where "P = 2 powi p"
  have P: "0 < P" by (simp add: P_def)
  have "of_int k / 2 / P = of_int (k * 2 ^ nat (- p - 1))"
  proof -
    have "(2::rat) powi (- p - 1) = 2 ^ nat (- p - 1)" using p by (simp add: power_int_def)
    moreover have "(2::rat) powi (- p - 1) = 1 / (2 * P)"
      by (simp add: P_def power_int_diff power_int_minus field_simps)
    moreover have "of_int k / 2 / P = of_int k * (1 / (2 * P))" by simp
    ultimately show ?thesis by simp
  qed
  moreover have "x / P \<le> of_int k / 2 / P"
    by (rule divide_right_mono) (use assms(2) P in simp_all)
  ultimately have "round_half_even (x / P) \<le> k * 2 ^ nat (- p - 1)"
    using round_half_even_le by metis
  then have "of_int (round_half_even (x / P)) * P \<le> of_int (k * 2 ^ nat (- p - 1)) * P"
    using P by (simp only: mult_le_cancel_right_pos of_int_le_iff)
  also have "\<dots> = of_int k / 2 / P * P" using \<open>of_int k / 2 / P = _\<close> by simp
  also have "\<dots> = of_int k / 2" using P by simp
  finally show ?thesis by (simp add: round_pos_def p_def P_def Let_def)
qed

lemma round_double_le_half:
  assumes "0 \<le> x" "x \<le> c" "2 * c = of_int k" "c < 16"
  shows "\<exists>r. round_double x = Finite r \<and> 0 \<le> r \<and> r \<le> c"
proof (cases "x = 0")
  case True
  then show ?thesis using assms by (simp add: round_double_def)
next
  case False
  with assms have x: "0 < x" by simp
  have c: "c = of_int k / 2" using assms(3) by simp
  have "(of_int k :: rat) < of_int 32" using assms(3,4) by simp
  then have k: "k \<le> 31" by (simp only: of_int_less_iff)
  have "round_pos x \<le> of_int k / 2" using x assms(2)[unfolded c] k by (rule round_pos_le_half)
  then have le: "round_pos x \<le> c" by (simp only: c)
  have "c < (of_int (2 ^ 1024) :: rat)"
  proof -
    have "(16::rat) < of_int (2 ^ 1024)" by simp
    with assms(4) show ?thesis by (rule less_trans)
  qed
  with le have "\<not> of_int (2 ^ 1024) \<le> round_pos x" by simp
  then show ?thesis using x le round_pos_nonneg[OF x]
    by (simp add: round_double_def Let_def)
qed

section \<open>Bounds of the engagement score\<close>

lemma count_clamp:
  "\<exists>v. py_min (Finite 5) (py_max (Finite 0) z) = Finite v \<and> 0 \<le> v \<and> v \<le> 5"
  by (cases z) (auto simp: py_min_def py_max_def)

lemma fl_add_le:
  assumes "0 \<le> a" "a \<le> ca" "0 \<le> b" "b \<le> cb" "2 * (ca + cb) = of_int k" "ca + cb < 16"
  shows "\<exists>r. fl_add (Finite a) (Finite b) = Finite r \<and> 0 \<le> r \<and> r \<le> ca + cb"
proof -
  have 1: "0 \<le> a + b" using assms(1,3) by simp
  have 2: "a + b \<le> ca + cb" using assms(2,4) by simp
  show ?thesis unfolding fl_add.simps using 1 2 assms(5,6) by (rule round_double_le_half)
qed

lemma add_count_score_try_bounds:
  assumes "add_count_score_try maxd cs (Finite 1) = Inr v"
  shows "\<exists>r. v = Finite r \<and> 0 \<le> r \<and> r \<le> 6"
proof -
  have step: "\<exists>r. fl_add (Finite 1) (py_min (Finite 5) (py_max (Finite 0) z)) = Finite r
                \<and> 0 \<le> r \<and> r \<le> 6" for z
  proof -
    obtain c where c: "py_min (Finite 5) (py_max (Finite 0) z) = Finite c" "0 \<le> c" "c \<le> 5"
      using count_clamp by blast
    have "\<exists>r. fl_add (Finite 1) (Finite c) = Finite r \<and> 0 \<le> r \<and> r \<le> 1 + 5"
      by (rule fl_add_le[where k = 12]) (use c in simp_all)
    then show ?thesis by (simp add: c(1))
  qed
  have one: "\<exists>r. Finite 1 = Finite r \<and> 0 \<le> r \<and> r \<le> 6" by simp
  show ?thesis
    using assms step one
    by (auto simp: add_count_score_try_def bind_eq_Inr split: pyval.splits if_splits)
qed

lemma add_count_score_bounds:
  "\<exists>r. add_count_score maxd cs (Finite 1) = Inr (Finite r) \<and> 0 \<le> r \<and> r \<le> 6"
proof (cases "add_count_score_try maxd cs (Finite 1)")
  case (Inl e)
  then show ?thesis by (simp add: add_count_score_def)
next
  case (Inr v)
  with add_count_score_try_bounds[OF Inr] show ?thesis by (auto simp: add_count_score_def)
qed

lemma add_if_le:
  assumes "0 \<le> a" "a \<le> ca" "0 \<le> b" "2 * (ca + b) = of_int k" "ca + b < 16"
  shows "\<exists>r. add_if c (Finite b) (Finite a) = Finite r \<and> 0 \<le> r \<and> r \<le> ca + b"
proof (cases c)
  case True
  have "\<exists>r. fl_add (Finite a) (Finite b) = Finite r \<and> 0 \<le> r \<and> r \<le> ca + b"
    using assms(1,2,3) order_refl assms(4,5) by (rule fl_add_le)
  with True show ?thesis by (simp add: add_if_def)
next
  case False
  have "a \<le> ca + b" using assms(2,3) by simp
  with False assms(1) show ?thesis by (simp add: add_if_def)
qed

lemma py_round2_le:
  assumes "0 \<le> a" "a \<le> 19 / 2"
  shows "\<exists>r. py_round2 (Finite a) = Finite r \<and> 0 \<le> r \<and> r \<le> 19 / 2
           \<and> round_double (of_int (round_half_even (a * 100)) / 100) = Finite r"
proof -
  define n where "n = round_half_even (a * 100)"
  have "a * 100 \<le> of_int 950" using assms(2) by simp
  then have n: "n \<le> 950" unfolding n_def by (rule round_half_even_le)
  have n0: "0 \<le> n" unfolding n_def using assms(1) by (simp add: round_half_even_nonneg)
  have 1: "(of_int n :: rat) / 100 \<le> 19 / 2" using n by simp
  have 2: "0 \<le> (of_int n :: rat) / 100" using n0 by simp
  have "\<exists>r. round_double (of_int n / 100) = Finite r \<and> 0 \<le> r \<and> r \<le> 19 / 2"
    using 2 1 by (rule round_double_le_half[where k = 19]) simp_all
  then show ?thesis by (auto simp: py_round2_def n_def)
qed

lemma round_double_1: "round_double (of_int 100 / 100) = Finite 1"
  by code_simp

lemma clamp_result:
  assumes "0 \<le> a" "a \<le> 19 / 2"
  shows "\<exists>r k. py_max (Finite 1) (py_min (Finite 10) (py_round2 (Finite a))) = Finite r
           \<and> 1 \<le> r \<and> r \<le> 19 / 2 \<and> round_double (of_int k / 100) = Finite r"
proof -
  obtain r where r: "py_round2 (Finite a) = Finite r" "0 \<le> r" "r \<le> 19 / 2"
    "round_double (of_int (round_half_even (a * 100)) / 100) = Finite r"
    using py_round2_le[OF assms] by blast
  have lt: "r < 10" using r(3) by simp
  show ?thesis
  proof (cases "1 < r")
    case True
    then have "py_max (Finite 1) (py_min (Finite 10) (py_round2 (Finite a))) = Finite r"
      using lt by (simp add: r(1) py_max_def py_min_def)
    moreover have "1 \<le> r" using True by simp
    ultimately show ?thesis using r(3,4) by blast
  next
    case False
    then have "py_max (Finite 1) (py_min (Finite 10) (py_round2 (Finite a))) = Finite 1"
      using lt by (simp add: r(1) py_max_def py_min_def)
    moreover have "(1::rat) \<le> 1" "(1::rat) \<le> 19 / 2" by simp_all
    ultimately show ?thesis using round_double_1 by blast
  qed
qed

lemma score_try_result:
  assumes "calculate_engagement_score_try maxd d = Inr v"
  shows "\<exists>r k. v = Finite r \<and> 1 \<le> r \<and> r \<le> 19 / 2 \<and> round_double (of_int k / 100) = Finite r"
proof -
  obtain t where t: "dict_get d ''topic'' (Str []) = Str t"
    using assms
    by (cases "dict_get d ''topic'' (Str [])")
       (auto simp: calculate_engagement_score_try_def Let_def bind_eq_Inr)
  obtain s1 where s1: "(if dict_get d ''count'' (Str ''N/A'') \<noteq> Str ''N/A''
                             \<and> \<not> falsy (dict_get d ''count'' (Str ''N/A''))
                         then add_count_score maxd (dict_get d ''count'' (Str ''N/A'')) (Finite 1)
                         else Inr (Finite 1)) = Inr s1"
    and v: "v = py_max (Finite 1) (py_min (Finite 10) (py_round2
               (add_if (any_in [''2024'', ''2023'', ''!'', ''@''] t) (Finite (1 / 2))
                 (add_if (15 < length t) (Finite (1 / 2))
                   (add_if (any_in indian_keywords (str_lower t)) (Finite 1)
                     (add_if (any_in trending_keywords (str_lower t)) (Finite (3 / 2)) s1))))))"
    using assms t
    by (auto simp: calculate_engagement_score_try_def Let_def bind_eq_Inr)
  obtain r1 where r1: "s1 = Finite r1" "0 \<le> r1" "r1 \<le> 6"
    using s1 add_count_score_bounds[of maxd "dict_get d ''count'' (Str ''N/A'')"]
    by (auto split: if_splits)
  have "\<exists>r. add_if (any_in trending_keywords (str_lower t)) (Finite (3 / 2)) (Finite r1) = Finite r
          \<and> 0 \<le> r \<and> r \<le> 6 + 3 / 2"
    by (rule add_if_le[where k = 15]) (use r1 in simp_all)
  then obtain r2 where r2:
    "add_if (any_in trending_keywords (str_lower t)) (Finite (3 / 2)) (Finite r1) = Finite r2"
    "0 \<le> r2" "r2 \<le> 15 / 2" by auto
  have "\<exists>r. add_if (any_in indian_keywords (str_lower t)) (Finite 1) (Finite r2) = Finite r
          \<and> 0 \<le> r \<and> r \<le> 15 / 2 + 1"
    by (rule add_if_le[where k = 17]) (use r2 in simp_all)
  then obtain r3 where r3:
    "add_if (any_in indian_keywords (str_lower t)) (Finite 1) (Finite r2) = Finite r3"
    "0 \<le> r3" "r3 \<le> 17 / 2" by auto
  have "\<exists>r. add_if (15 < length t) (Finite (1 / 2)) (Finite r3) = Finite r
          \<and> 0 \<le> r \<and> r \<le> 17 / 2 + 1 / 2"
    by (rule add_if_le[where k = 18]) (use r3 in simp_all)
  then obtain r4 where r4:
    "add_if (15 < length t) (Finite (1 / 2)) (Finite r3) = Finite r4"
    "0 \<le> r4" "r4 \<le> 9" by auto
  have "\<exists>r. add_if (any_in [''2024'', ''2023'', ''!'', ''@''] t) (Finite (1 / 2)) (Finite r4) = Finite r
          \<and> 0 \<le> r \<and> r \<le> 9 + 1 / 2"
    by (rule add_if_le[where k = 19]) (use r4 in simp_all)
  then obtain r5 where r5:
    "add_if (any_in [''2024'', ''2023'', ''!'', ''@''] t) (Finite (1 / 2)) (Finite r4) = Finite r5"
    "0 \<le> r5" "r5 \<le> 19 / 2" by auto
  have "v = py_max (Finite 1) (py_min (Finite 10) (py_round2 (Finite r5)))"
    by (simp only: v r1(1) r2(1) r3(1) r4(1) r5(1))
  then show ?thesis using clamp_result[OF r5(2,3)] by simp
qed

text \<open>
  C5. For every topic and every count (the dictionary may lack either, or hold an empty
  string), \<^verbatim>\<open>calculate_engagement_score\<close> returns a float between 1.0 and 10.0 that is
  a two-decimal number \<open>k / 100\<close> converted to a float.
\<close>

theorem calculate_engagement_score_range:
  "\<exists>r k. calculate_engagement_score maxd topic_data = Inr (Finite r)
          \<and> 1 \<le> r \<and> r \<le> 10 \<and> round_double (of_int k / 100) = Finite r"
proof (cases "calculate_engagement_score_try maxd topic_data")
  case (Inl e)
  then have "calculate_engagement_score maxd topic_data = Inr (Finite 1)"
    by (simp add: calculate_engagement_score_def)
  moreover have "(1::rat) \<le> 1" "(1::rat) \<le> 10" by simp_all
  ultimately show ?thesis using round_double_1 by blast
next
  case (Inr v)
  from score_try_result[OF Inr] obtain r k where
    "v = Finite r" "1 \<le> r" "r \<le> 19 / 2" "round_double (of_int k / 100) = Finite r"
    by blast
  moreover from this have "r \<le> 10" by simp
  moreover have "calculate_engagement_score maxd topic_data = Inr v"
    using Inr by (simp add: calculate_engagement_score_def)
  ultimately show ?thesis by blast
qed

lemma score_of_empty_strings:
  "calculate_engagement_score 4300 [''topic'' \<mapsto> Str [], ''count'' \<mapsto> Str []] = Inr (Finite 1)"
  by code_simp

lemma score_with_every_bonus:
  "calculate_engagement_score 4300
     [''topic'' \<mapsto> Str ''#IndiaElectionNews2024'', ''count'' \<mapsto> Str ''50K'']
   = Inr (Finite (19 / 2))"
  by code_simp

lemma round_double_950: "round_double (of_int 950 / 100) = Finite (19 / 2)"
  by code_simp

theorem calculate_engagement_score_range_witness:
  "calculate_engagement_score 4300 [''topic'' \<mapsto> Str [], ''count'' \<mapsto> Str []] = Inr (Finite 1)
   \<and> calculate_engagement_score 4300
        [''topic'' \<mapsto> Str ''#IndiaElectionNews2024'', ''count'' \<mapsto> Str ''50K'']
      = Inr (Finite (19 / 2))
   \<and> round_double (of_int 950 / 100) = Finite (19 / 2)
   \<and> (\<exists>r k. calculate_engagement_score 4300 [''topic'' \<mapsto> Str [], ''count'' \<mapsto> Str []]
             = Inr (Finite r)
           \<and> 1 \<le> r \<and> r \<le> 10 \<and> round_double (of_int k / 100) = Finite r)"
  using calculate_engagement_score_range
          [of 4300 "[''topic'' \<mapsto> Str [], ''count'' \<mapsto> Str []]"]
    score_of_empty_strings score_with_every_bonus round_double_950
  by blast

text \<open>
  C10. For every topic and every count, \<^verbatim>\<open>calculate_engagement_score\<close> returns at most
  9.5, the base 1.0 with every bonus (5, 1.5, 1.0, 0.5 and 0.5), so the upper clamp at 10
  is never reached.
\<close>

theorem calculate_engagement_score_at_most_9_5:
  "\<exists>r. calculate_engagement_score maxd topic_data = Inr (Finite r) \<and> r \<le> 19 / 2 \<and> r < 10"
proof (cases "calculate_engagement_score_try maxd topic_data")
  case (Inl e)
  then have "calculate_engagement_score maxd topic_data = Inr (Finite 1)"
    by (simp add: calculate_engagement_score_def)
  then show ?thesis by simp
next
  case (Inr v)
  from score_try_result[OF Inr] obtain r where "v = Finite r" "r \<le> 19 / 2" by blast
  moreover from this have "r < 10" by simp
  moreover have "calculate_engagement_score maxd topic_data = Inr v"
    using Inr by (simp add: calculate_engagement_score_def)
  ultimately show ?thesis by blast
qed

theorem calculate_engagement_score_at_most_9_5_witness:
  "calculate_engagement_score 4300
     [''topic'' \<mapsto> Str ''#IndiaElectionNews2024'', ''count'' \<mapsto> Str ''50K'']
   = Inr (Finite (19 / 2))
   \<and> (\<exists>r. calculate_engagement_score 4300
             [''topic'' \<mapsto> Str ''#IndiaElectionNews2024'', ''count'' \<mapsto> Str ''50K'']
           = Inr (Finite r) \<and> r \<le> 19 / 2 \<and> r < 10)"
  using calculate_engagement_score_at_most_9_5
          [of 4300 "[''topic'' \<mapsto> Str ''#IndiaElectionNews2024'', ''count'' \<mapsto> Str ''50K'']"]
    score_with_every_bonus
  by blast

section \<open>Totality of the core functions\<close>

lemma analyze_hashtag_sentiment_total:
  "\<exists>label polarity. analyze_hashtag_sentiment polarity_of hashtag = Inr (label, polarity)"
  by (cases "analyze_hashtag_sentiment_try polarity_of hashtag")
     (auto simp: analyze_hashtag_sentiment_def)

lemma get_hashtag_post_content_total: "\<exists>content. get_hashtag_post_content hashtag = Inr content"
  by (cases "get_hashtag_post_content_try hashtag") (auto simp: get_hashtag_post_content_def)

lemma parse_post_count_total: "\<exists>n. parse_post_count maxd count_str = Inr n"
  by (cases "parse_post_count_try maxd count_str") (auto simp: parse_post_count_def)

lemma calculate_engagement_score_total: "\<exists>s. calculate_engagement_score maxd topic_data = Inr s"
  by (cases "calculate_engagement_score_try maxd topic_data")
     (auto simp: calculate_engagement_score_def)

section \<open>The count parser and the scorer on concrete counts\<close>

lemma posts_50K: "parse_post_count maxd (Str ''50K'') = Inr 50000"
  by code_simp

lemma posts_2_1M: "parse_post_count maxd (Str ''2.1M'') = Inr 2100000"
  by code_simp

lemma score_breaking_news:
  "calculate_engagement_score maxd
     [''topic'' \<mapsto> Str ''#BreakingNews2024'', ''count'' \<mapsto> Str ''50K'',
      ''twitter_link'' \<mapsto> Str link]
   = Inr (Finite (17 / 2))"
  by code_simp

lemma count_score_50K: "add_count_score maxd (Str ''50K'') (Finite 1) = Inr (Finite (1 + 5))"
  by code_simp

lemma bonuses_breaking_news:
  "any_in trending_keywords (str_lower ''#BreakingNews2024'')
   \<and> \<not> any_in indian_keywords (str_lower ''#BreakingNews2024'')
   \<and> 15 < length ''#BreakingNews2024''
   \<and> any_in [''2024'', ''2023'', ''!'', ''@''] ''#BreakingNews2024''"
  by code_simp

text \<open>
  C6. For the raw trend with topic \<^verbatim>\<open>#BreakingNews2024\<close> and count \<^verbatim>\<open>50K\<close> (and any
  link), the loop body produces a row with \<open>posts = 50000\<close> and engagement score 8.5:
  the base 1.0, the count contribution capped at 5, the urgency bonus 1.5, no locale
  bonus, the length bonus 0.5 and the marker bonus 0.5.
\<close>

theorem breaking_news_scenario:
  "(\<exists>row. process_topic maxd polarity_of vid
            [''topic'' \<mapsto> Str ''#BreakingNews2024'', ''count'' \<mapsto> Str ''50K'',
             ''twitter_link'' \<mapsto> Str link] = Inr row
          \<and> posts row = 50000 \<and> engagement_score row = Finite (17 / 2))
   \<and> add_count_score maxd (Str ''50K'') (Finite 1) = Inr (Finite (1 + 5))
   \<and> any_in trending_keywords (str_lower ''#BreakingNews2024'')
   \<and> \<not> any_in indian_keywords (str_lower ''#BreakingNews2024'')
   \<and> 15 < length ''#BreakingNews2024''
   \<and> any_in [''2024'', ''2023'', ''!'', ''@''] ''#BreakingNews2024''
   \<and> (1 + 5 + 3 / 2 + 1 / 2 + 1 / 2 :: rat) = 17 / 2"
proof -
  obtain label polarity where
    sent: "analyze_hashtag_sentiment polarity_of (Str ''#BreakingNews2024'') = Inr (label, polarity)"
    using analyze_hashtag_sentiment_total by blast
  obtain content where content: "get_hashtag_post_content (Str ''#BreakingNews2024'') = Inr content"
    using get_hashtag_post_content_total by blast
  have "\<exists>row. process_topic maxd polarity_of vid
            [''topic'' \<mapsto> Str ''#BreakingNews2024'', ''count'' \<mapsto> Str ''50K'',
             ''twitter_link'' \<mapsto> Str link] = Inr row
          \<and> posts row = 50000 \<and> engagement_score row = Finite (17 / 2)"
    by (simp add: process_topic_def dict_item_def score_breaking_news sent content posts_50K
          generate_twitter_search_link_def)
  moreover have "(1 + 5 + 3 / 2 + 1 / 2 + 1 / 2 :: rat) = 17 / 2" by simp
  ultimately show ?thesis using count_score_50K bonuses_breaking_news by blast
qed

theorem breaking_news_scenario_witness:
  "\<exists>row. process_topic 4300 (\<lambda>s. Inr (Finite 0)) ''run-1''
            [''topic'' \<mapsto> Str ''#BreakingNews2024'', ''count'' \<mapsto> Str ''50K'',
             ''twitter_link'' \<mapsto> Str ''https://twitter.com/search?q=%23BreakingNews2024'']
          = Inr row
        \<and> posts row = 50000 \<and> engagement_score row = Finite (17 / 2)"
  using breaking_news_scenario
          [of 4300 "\<lambda>s. Inr (Finite 0)" "''run-1''"
              "''https://twitter.com/search?q=%23BreakingNews2024''"]
  by blast

lemma tweet_count_2_1M: "score_tweet_count maxd ''2.1M'' = Inr 21000000"
  by code_simp

lemma tweet_count_5k: "score_tweet_count maxd ''5k'' = Inr 5"
  by code_simp

lemma posts_5k: "parse_post_count maxd (Str ''5k'') = Inr 5000"
  by code_simp

lemma tweet_count_1_5K: "score_tweet_count maxd ''1.5K'' = Inr 15000"
  by code_simp

lemma posts_1_5K: "parse_post_count maxd (Str ''1.5K'') = Inr 1500"
  by code_simp

lemma score_1_5K:
  "calculate_engagement_score maxd [''topic'' \<mapsto> Str ''#x'', ''count'' \<mapsto> Str ''1.5K'']
   = Inr (Finite 4)"
  by code_simp

text \<open>
  C1. The claim is that the scorer takes the count to be \<^verbatim>\<open>parse_post_count\<close> of the
  count string. It does not: it has a reading of its own, which puts the digits of a
  fractional count together and knows the suffix in upper case only. For \<^verbatim>\<open>2.1M\<close> it
  takes 21000000 where \<^verbatim>\<open>parse_post_count\<close> gives 2100000, for \<^verbatim>\<open>5k\<close> it takes 5
  instead of 5000, and for \<^verbatim>\<open>1.5K\<close> it takes 15000 instead of 1500, which makes the score
  of the topic \<^verbatim>\<open>#x\<close> 4.0 (the count 1500 would add 0.3 to the base).
\<close>

theorem scorer_count_differs_from_parse_post_count:
  "score_tweet_count maxd ''2.1M'' = Inr 21000000
   \<and> parse_post_count maxd (Str ''2.1M'') = Inr 2100000
   \<and> score_tweet_count maxd ''5k'' = Inr 5
   \<and> parse_post_count maxd (Str ''5k'') = Inr 5000
   \<and> score_tweet_count maxd ''1.5K'' = Inr 15000
   \<and> parse_post_count maxd (Str ''1.5K'') = Inr 1500
   \<and> calculate_engagement_score maxd [''topic'' \<mapsto> Str ''#x'', ''count'' \<mapsto> Str ''1.5K'']
       = Inr (Finite 4)"
  using tweet_count_2_1M posts_2_1M tweet_count_5k posts_5k tweet_count_1_5K posts_1_5K
    score_1_5K
  by blast

theorem scorer_count_differs_from_parse_post_count_witness:
  "score_tweet_count 4300 ''2.1M'' = Inr 21000000
   \<and> parse_post_count 4300 (Str ''2.1M'') = Inr 2100000
   \<and> score_tweet_count 4300 ''1.5K'' = Inr 15000
   \<and> parse_post_count 4300 (Str ''1.5K'') = Inr 1500"
  using scorer_count_differs_from_parse_post_count [of 4300]
  by blast

lemma posts_na: "parse_post_count maxd (Str ''N/A'') = Inr 0"
  by (simp add: parse_post_count_def)

lemma posts_empty: "parse_post_count maxd (Str []) = Inr 0"
  by (simp add: parse_post_count_def falsy_def)

lemma posts_25K: "parse_post_count maxd (Str ''25K'') = Inr 25000"
  by code_simp

lemma posts_1234: "parse_post_count maxd (Str ''1,234'') = Inr 1234"
  by code_simp

lemma posts_abc: "parse_post_count maxd (Str ''abc'') = Inr 0"
  by code_simp

lemma posts_abc_try: "parse_post_count_try maxd (Str ''abc'') = Inl ValueError"
  by code_simp

text \<open>
  C3. \<^verbatim>\<open>parse_post_count\<close> returns 0 for \<^verbatim>\<open>N/A\<close> and for the empty string, 25000 for
  \<^verbatim>\<open>25K\<close>, 2100000 for \<^verbatim>\<open>2.1M\<close>, 1234 for \<^verbatim>\<open>1,234\<close>, and 0 for the malformed
  \<^verbatim>\<open>abc\<close>, where the \<^verbatim>\<open>ValueError\<close> of \<^verbatim>\<open>int\<close> is caught.
\<close>

theorem parse_post_count_examples:
  "parse_post_count maxd (Str ''N/A'') = Inr 0
   \<and> parse_post_count maxd (Str []) = Inr 0
   \<and> parse_post_count maxd (Str ''25K'') = Inr 25000
   \<and> parse_post_count maxd (Str ''2.1M'') = Inr 2100000
   \<and> parse_post_count maxd (Str ''1,234'') = Inr 1234
   \<and> parse_post_count_try maxd (Str ''abc'') = Inl ValueError
   \<and> parse_post_count maxd (Str ''abc'') = Inr 0"
  using posts_na posts_empty posts_25K posts_2_1M posts_1234 posts_abc_try posts_abc
  by blast

theorem parse_post_count_examples_witness:
  "parse_post_count 4300 (Str ''N/A'') = Inr 0
   \<and> parse_post_count 4300 (Str []) = Inr 0
   \<and> parse_post_count 4300 (Str ''25K'') = Inr 25000
   \<and> parse_post_count 4300 (Str ''2.1M'') = Inr 2100000
   \<and> parse_post_count 4300 (Str ''1,234'') = Inr 1234
   \<and> parse_post_count_try 4300 (Str ''abc'') = Inl ValueError
   \<and> parse_post_count 4300 (Str ''abc'') = Inr 0"
  using parse_post_count_examples [of 4300]
  by blast

section \<open>The sign of a parsed count\<close>






















section \<open>Sentiment labels and failures\<close>

lemma lit_0_05_value: "lit_0_05 = Finite (3602879701896397 / 72057594037927936)"
  by code_simp

text \<open>
  C4. When the external call returns the polarity \<open>p\<close>, \<^verbatim>\<open>analyze_hashtag_sentiment\<close>
  returns \<open>p\<close> with the label \<^verbatim>\<open>Positive\<close> exactly when \<open>0.05 < p\<close>, \<^verbatim>\<open>Negative\<close>
  exactly when \<open>p < - 0.05\<close>, and \<^verbatim>\<open>Neutral\<close> exactly when neither holds; the polarities
  \<open>0.05\<close> and \<open>- 0.05\<close> themselves are \<^verbatim>\<open>Neutral\<close>. The comparisons are those of floats,
  and \<open>0.05\<close> is the float of that literal.
\<close>

theorem analyze_hashtag_sentiment_thresholds:
  assumes "polarity_of (str_replace (CHR ''_'') '' '' (str_replace (CHR ''#'') [] h)) = Inr p"
  shows "\<exists>label. analyze_hashtag_sentiment polarity_of (Str h) = Inr (label, p)
           \<and> (label = ''Positive'' \<longleftrightarrow> fl_less lit_0_05 p)
           \<and> (label = ''Negative'' \<longleftrightarrow> fl_less p (fl_neg lit_0_05))
           \<and> (label = ''Neutral'' \<longleftrightarrow> \<not> fl_less lit_0_05 p \<and> \<not> fl_less p (fl_neg lit_0_05))
           \<and> (p = lit_0_05 \<or> p = fl_neg lit_0_05 \<longrightarrow> label = ''Neutral'')"
proof -
  have excl: "\<not> (fl_less lit_0_05 p \<and> fl_less p (fl_neg lit_0_05))"
    by (cases p) (simp_all add: lit_0_05_value fl_neg_def)
  have refl: "\<not> fl_less lit_0_05 lit_0_05" "\<not> fl_less (fl_neg lit_0_05) (fl_neg lit_0_05)"
    "\<not> fl_less lit_0_05 (fl_neg lit_0_05)"
    by (simp_all add: lit_0_05_value fl_neg_def)
  show ?thesis
    using assms excl refl
    by (auto simp: analyze_hashtag_sentiment_def analyze_hashtag_sentiment_try_def Let_def)
qed

theorem analyze_hashtag_sentiment_thresholds_witness:
  "analyze_hashtag_sentiment (\<lambda>s. Inr lit_0_05) (Str ''#Good_Day'') = Inr (''Neutral'', lit_0_05)
   \<and> analyze_hashtag_sentiment (\<lambda>s. Inr (fl_neg lit_0_05)) (Str ''#Good_Day'')
       = Inr (''Neutral'', fl_neg lit_0_05)
   \<and> analyze_hashtag_sentiment (\<lambda>s. Inr (Finite (1 / 2))) (Str ''#Good_Day'')
       = Inr (''Positive'', Finite (1 / 2))
   \<and> analyze_hashtag_sentiment (\<lambda>s. Inr (Finite (- 1 / 2))) (Str ''#Good_Day'')
       = Inr (''Negative'', Finite (- 1 / 2))"
proof -
  have 1: "(\<lambda>s. Inr lit_0_05 :: pyerror + pyfloat)
             (str_replace (CHR ''_'') '' '' (str_replace (CHR ''#'') [] ''#Good_Day'')) = Inr lit_0_05"
    by simp
  have 2: "(\<lambda>s. Inr (fl_neg lit_0_05) :: pyerror + pyfloat)
             (str_replace (CHR ''_'') '' '' (str_replace (CHR ''#'') [] ''#Good_Day''))
           = Inr (fl_neg lit_0_05)"
    by simp
  have 3: "(\<lambda>s. Inr (Finite (1 / 2)) :: pyerror + pyfloat)
             (str_replace (CHR ''_'') '' '' (str_replace (CHR ''#'') [] ''#Good_Day''))
           = Inr (Finite (1 / 2))"
    by simp
  have 4: "(\<lambda>s. Inr (Finite (- 1 / 2)) :: pyerror + pyfloat)
             (str_replace (CHR ''_'') '' '' (str_replace (CHR ''#'') [] ''#Good_Day''))
           = Inr (Finite (- 1 / 2))"
    by simp
  have 5: "fl_less lit_0_05 (Finite (1 / 2))" "fl_less (Finite (- 1 / 2)) (fl_neg lit_0_05)"
    by (simp_all add: lit_0_05_value fl_neg_def)
  show ?thesis
    using analyze_hashtag_sentiment_thresholds[OF 1] analyze_hashtag_sentiment_thresholds[OF 2]
      analyze_hashtag_sentiment_thresholds[OF 3] analyze_hashtag_sentiment_thresholds[OF 4] 5
    by auto
qed

lemma add_count_score_total: "\<exists>s. add_count_score maxd cs es = Inr s"
  by (cases "add_count_score_try maxd cs es") (auto simp: add_count_score_def)

lemma score_try_without_string_topic:
  assumes "dict_get topic_data ''topic'' (Str []) = NoneV"
  shows "calculate_engagement_score_try maxd topic_data = Inl AttributeError"
proof -
  obtain s where
    "add_count_score maxd (dict_get topic_data ''count'' (Str ''N/A'')) (Finite 1) = Inr s"
    using add_count_score_total by blast
  then show ?thesis
    by (simp add: calculate_engagement_score_try_def Let_def assms)
qed

lemma score_try_fails_only_without_string_topic:
  assumes "calculate_engagement_score_try maxd topic_data = Inl e"
  shows "dict_get topic_data ''topic'' (Str []) = NoneV \<and> e = AttributeError"
proof (cases "dict_get topic_data ''topic'' (Str [])")
  case (Str t)
  obtain s where
    "add_count_score maxd (dict_get topic_data ''count'' (Str ''N/A'')) (Finite 1) = Inr s"
    using add_count_score_total by blast
  with assms Str show ?thesis
    by (simp add: calculate_engagement_score_try_def Let_def split: if_splits)
next
  case NoneV
  with score_try_without_string_topic[OF NoneV, of maxd] assms show ?thesis by simp
qed

lemma score_with_failing_count:
  assumes "add_count_score_try maxd (dict_get topic_data ''count'' (Str ''N/A'')) (Finite 1) = Inl e"
  shows "calculate_engagement_score maxd topic_data
           = calculate_engagement_score maxd (topic_data(''count'' \<mapsto> Str ''N/A''))"
proof -
  have 1: "add_count_score maxd (dict_get topic_data ''count'' (Str ''N/A'')) (Finite 1)
             = Inr (Finite 1)"
    by (simp add: add_count_score_def assms)
  have 2: "dict_get (topic_data(''count'' \<mapsto> Str ''N/A'')) ''topic'' (Str [])
             = dict_get topic_data ''topic'' (Str [])"
    by (simp add: dict_get_def)
  have 3: "dict_get (topic_data(''count'' \<mapsto> Str ''N/A'')) ''count'' (Str ''N/A'') = Str ''N/A''"
    by (simp add: dict_get_def)
  have "calculate_engagement_score_try maxd topic_data
          = calculate_engagement_score_try maxd (topic_data(''count'' \<mapsto> Str ''N/A''))"
    unfolding calculate_engagement_score_try_def Let_def 2 3 using 1 by simp
  then show ?thesis by (simp add: calculate_engagement_score_def)
qed

lemma count_try_superscript:
  "add_count_score_try 4300 (Str [CHR ''5'', CHR 0xB2]) (Finite 1) = Inl ValueError"
  by code_simp

lemma score_superscript:
  "calculate_engagement_score 4300
     [''topic'' \<mapsto> Str ''#BreakingNews'', ''count'' \<mapsto> Str [CHR ''5'', CHR 0xB2]]
   = Inr (Finite (5 / 2))"
  by code_simp

lemma score_no_count:
  "calculate_engagement_score 4300
     [''topic'' \<mapsto> Str ''#BreakingNews'', ''count'' \<mapsto> Str ''N/A'']
   = Inr (Finite (5 / 2))"
  by code_simp

text \<open>
  C8, as amended. No core function raises: the sentiment analyzer, the scorer, the count
  parser and the content synthesizer return a value for every argument and every
  behaviour of the external call. When the external call fails (or anything else in its
  \<^verbatim>\<open>try\<close> block does), \<^verbatim>\<open>analyze_hashtag_sentiment\<close> returns \<^verbatim>\<open>("Neutral", 0.0)\<close>.
  In \<^verbatim>\<open>calculate_engagement_score\<close>, a failure while the count is read (the inner
  \<^verbatim>\<open>try\<close>) is swallowed, and the score is the one of the same topic with the count
  \<^verbatim>\<open>N/A\<close>; the outer \<^verbatim>\<open>try\<close> block fails exactly when the topic is not a string,
  with \<^verbatim>\<open>AttributeError\<close>, and then the score is 1.0.
\<close>

theorem core_functions_fail_soft:
  "(\<exists>r. analyze_hashtag_sentiment polarity_of hashtag = Inr r)
   \<and> (\<exists>s. calculate_engagement_score maxd topic_data = Inr s)
   \<and> (\<exists>n. parse_post_count maxd count_str = Inr n)
   \<and> (\<exists>c. get_hashtag_post_content hashtag = Inr c)
   \<and> (polarity_of (str_replace (CHR ''_'') '' '' (str_replace (CHR ''#'') [] h)) = Inl e
        \<longrightarrow> analyze_hashtag_sentiment polarity_of (Str h) = Inr (''Neutral'', Finite 0))
   \<and> (analyze_hashtag_sentiment_try polarity_of hashtag = Inl e
        \<longrightarrow> analyze_hashtag_sentiment polarity_of hashtag = Inr (''Neutral'', Finite 0))
   \<and> (add_count_score_try maxd (dict_get topic_data ''count'' (Str ''N/A'')) (Finite 1) = Inl ea
        \<longrightarrow> calculate_engagement_score maxd topic_data
              = calculate_engagement_score maxd (topic_data(''count'' \<mapsto> Str ''N/A'')))
   \<and> (dict_get topic_data ''topic'' (Str []) = NoneV
        \<longrightarrow> calculate_engagement_score_try maxd topic_data = Inl AttributeError
            \<and> calculate_engagement_score maxd topic_data = Inr (Finite 1))
   \<and> (calculate_engagement_score_try maxd topic_data = Inl eb
        \<longrightarrow> dict_get topic_data ''topic'' (Str []) = NoneV \<and> eb = AttributeError
            \<and> calculate_engagement_score maxd topic_data = Inr (Finite 1))"
proof -
  have 1: "\<exists>r. analyze_hashtag_sentiment polarity_of hashtag = Inr r"
    using analyze_hashtag_sentiment_total[of polarity_of hashtag] by auto
  have 2: "polarity_of (str_replace (CHR ''_'') '' '' (str_replace (CHR ''#'') [] h)) = Inl e
        \<longrightarrow> analyze_hashtag_sentiment polarity_of (Str h) = Inr (''Neutral'', Finite 0)"
    by (simp add: analyze_hashtag_sentiment_def analyze_hashtag_sentiment_try_def)
  have 3: "analyze_hashtag_sentiment_try polarity_of hashtag = Inl e
        \<longrightarrow> analyze_hashtag_sentiment polarity_of hashtag = Inr (''Neutral'', Finite 0)"
    by (simp add: analyze_hashtag_sentiment_def)
  have 4: "add_count_score_try maxd (dict_get topic_data ''count'' (Str ''N/A'')) (Finite 1) = Inl ea
        \<longrightarrow> calculate_engagement_score maxd topic_data
              = calculate_engagement_score maxd (topic_data(''count'' \<mapsto> Str ''N/A''))"
    using score_with_failing_count by blast
  have 5: "dict_get topic_data ''topic'' (Str []) = NoneV
        \<longrightarrow> calculate_engagement_score_try maxd topic_data = Inl AttributeError
            \<and> calculate_engagement_score maxd topic_data = Inr (Finite 1)"
    using score_try_without_string_topic[of topic_data maxd]
    by (simp add: calculate_engagement_score_def)
  have 6: "calculate_engagement_score_try maxd topic_data = Inl eb
        \<longrightarrow> dict_get topic_data ''topic'' (Str []) = NoneV \<and> eb = AttributeError
            \<and> calculate_engagement_score maxd topic_data = Inr (Finite 1)"
    using score_try_fails_only_without_string_topic[of maxd topic_data eb]
    by (simp add: calculate_engagement_score_def)
  show ?thesis
    using 1 2 3 4 5 6 calculate_engagement_score_total parse_post_count_total
      get_hashtag_post_content_total by blast
qed

theorem core_functions_fail_soft_witness:
  "analyze_hashtag_sentiment (\<lambda>s. Inl ExternalError) (Str ''#Good_Day'') = Inr (''Neutral'', Finite 0)
   \<and> add_count_score_try 4300 (Str [CHR ''5'', CHR 0xB2]) (Finite 1) = Inl ValueError
   \<and> calculate_engagement_score 4300
        [''topic'' \<mapsto> Str ''#BreakingNews'', ''count'' \<mapsto> Str [CHR ''5'', CHR 0xB2]]
      = calculate_engagement_score 4300
          ([''topic'' \<mapsto> Str ''#BreakingNews'', ''count'' \<mapsto> Str [CHR ''5'', CHR 0xB2]]
             (''count'' \<mapsto> Str ''N/A''))
   \<and> calculate_engagement_score 4300
        [''topic'' \<mapsto> Str ''#BreakingNews'', ''count'' \<mapsto> Str ''N/A'']
      = Inr (Finite (5 / 2))
   \<and> calculate_engagement_score_try 4300 [''topic'' \<mapsto> NoneV, ''count'' \<mapsto> Str ''50K'']
       = Inl AttributeError
   \<and> calculate_engagement_score 4300 [''topic'' \<mapsto> NoneV, ''count'' \<mapsto> Str ''50K'']
       = Inr (Finite 1)"
proof -
  have a: "(\<lambda>s. Inl ExternalError :: pyerror + pyfloat)
             (str_replace (CHR ''_'') '' '' (str_replace (CHR ''#'') [] ''#Good_Day''))
           = Inl ExternalError"
    by simp
  have b: "add_count_score_try 4300
             (dict_get [''topic'' \<mapsto> Str ''#BreakingNews'', ''count'' \<mapsto> Str [CHR ''5'', CHR 0xB2]]
                ''count'' (Str ''N/A''))
             (Finite 1) = Inl ValueError"
    using count_try_superscript by (simp add: dict_get_def)
  have c: "dict_get [''topic'' \<mapsto> NoneV, ''count'' \<mapsto> Str ''50K''] ''topic'' (Str []) = NoneV"
    by (simp add: dict_get_def)
  have d: "calculate_engagement_score 4300
             [''topic'' \<mapsto> Str ''#BreakingNews'', ''count'' \<mapsto> Str [CHR ''5'', CHR 0xB2]]
           = calculate_engagement_score 4300
               ([''topic'' \<mapsto> Str ''#BreakingNews'', ''count'' \<mapsto> Str [CHR ''5'', CHR 0xB2]]
                  (''count'' \<mapsto> Str ''N/A''))"
    using b
      core_functions_fail_soft
        [where maxd = 4300 and ea = ValueError
           and topic_data = "[''topic'' \<mapsto> Str ''#BreakingNews'',
                              ''count'' \<mapsto> Str [CHR ''5'', CHR 0xB2]]"]
    by blast
  have e: "analyze_hashtag_sentiment (\<lambda>s. Inl ExternalError) (Str ''#Good_Day'')
             = Inr (''Neutral'', Finite 0)"
    using a
      core_functions_fail_soft
        [where polarity_of = "\<lambda>s. Inl ExternalError" and h = "''#Good_Day''"
           and e = ExternalError]
    by blast
  have f: "calculate_engagement_score_try 4300 [''topic'' \<mapsto> NoneV, ''count'' \<mapsto> Str ''50K'']
             = Inl AttributeError
           \<and> calculate_engagement_score 4300 [''topic'' \<mapsto> NoneV, ''count'' \<mapsto> Str ''50K'']
             = Inr (Finite 1)"
    using c
      core_functions_fail_soft
        [where maxd = 4300
           and topic_data = "[''topic'' \<mapsto> NoneV, ''count'' \<mapsto> Str ''50K'']"]
    by blast
  show ?thesis
    using d e f count_try_superscript score_no_count by blast
qed

text \<open>
  The claim C8 as stated fails where it says that any internal failure of the scorer gives
  1.0. For the topic \<^verbatim>\<open>#BreakingNews\<close> and the count \<^verbatim>\<open>5\<close> followed by the superscript
  two (U+00B2, a digit for \<^verbatim>\<open>isdigit\<close>), \<^verbatim>\<open>int\<close> raises \<^verbatim>\<open>ValueError\<close> inside the
  inner \<^verbatim>\<open>try\<close>; the failure is swallowed and the score is 2.5, the base and the
  urgency bonus.
\<close>

theorem swallowed_count_failure_keeps_bonuses:
  "add_count_score_try 4300 (Str [CHR ''5'', CHR 0xB2]) (Finite 1) = Inl ValueError
   \<and> calculate_engagement_score 4300
        [''topic'' \<mapsto> Str ''#BreakingNews'', ''count'' \<mapsto> Str [CHR ''5'', CHR 0xB2]]
      = Inr (Finite (5 / 2))
   \<and> (5 / 2 :: rat) \<noteq> 1"
proof -
  have "(5 / 2 :: rat) \<noteq> 1" by simp
  with count_try_superscript score_superscript show ?thesis by blast
qed

section \<open>The loop of the pipeline\<close>

lemma raw_trendD:
  assumes "raw_trend d"
  obtains t c where "d ''topic'' = Some (Str t)" "d ''count'' = Some (Str c)"
  using assms by (auto simp: raw_trend_def split: option.splits pyval.splits)

lemma process_topic_row:
  assumes "raw_trend d"
  shows "\<exists>row. process_topic maxd polarity_of vid d = Inr row
           \<and> platform row = ''Twitter'' \<and> Some (topic_hashtag row) = d ''topic''
           \<and> views row = 0 \<and> version_id row = vid"
proof -
  obtain t c where t: "d ''topic'' = Some (Str t)" and c: "d ''count'' = Some (Str c)"
    using assms by (rule raw_trendD)
  obtain score where score: "calculate_engagement_score maxd d = Inr score"
    using calculate_engagement_score_total by blast
  obtain label polarity where
    sent: "analyze_hashtag_sentiment polarity_of (Str t) = Inr (label, polarity)"
    using analyze_hashtag_sentiment_total by blast
  obtain content where content: "get_hashtag_post_content (Str t) = Inr content"
    using get_hashtag_post_content_total by blast
  obtain n where n: "parse_post_count maxd (Str c) = Inr n"
    using parse_post_count_total by blast
  show ?thesis
    by (simp add: process_topic_def dict_item_def t c score sent content n
          generate_twitter_search_link_def)
qed

lemma process_topics_rows:
  assumes "list_all raw_trend ts"
  shows "\<exists>rows. process_topics maxd polarity_of vid ts acc = Inr (acc @ rows)
           \<and> length rows = length ts
           \<and> map (\<lambda>r. Some (topic_hashtag r)) rows = map (\<lambda>d. d ''topic'') ts
           \<and> list_all (\<lambda>r. platform r = ''Twitter'' \<and> views r = 0 \<and> version_id r = vid) rows"
  using assms
proof (induction ts arbitrary: acc)
  case Nil
  then show ?case by simp
next
  case (Cons d ts)
  then have d: "raw_trend d" and ts: "list_all raw_trend ts" by simp_all
  obtain row where row: "process_topic maxd polarity_of vid d = Inr row"
    "platform row = ''Twitter''" "Some (topic_hashtag row) = d ''topic''"
    "views row = 0" "version_id row = vid"
    using process_topic_row[OF d] by blast
  obtain rows where rows:
    "process_topics maxd polarity_of vid ts (acc @ [row]) = Inr ((acc @ [row]) @ rows)"
    "length rows = length ts"
    "map (\<lambda>r. Some (topic_hashtag r)) rows = map (\<lambda>d. d ''topic'') ts"
    "list_all (\<lambda>r. platform r = ''Twitter'' \<and> views r = 0 \<and> version_id r = vid) rows"
    using Cons.IH[OF ts] by blast
  show ?case
    by (rule exI[of _ "row # rows"]) (simp add: row rows)
qed

text \<open>
  C9. For every list of raw trends (dictionaries whose topic and count are strings), the
  loop builds exactly one row per trend, in the order of the list and without dropping a
  repeated topic; these are the rows handed to the table (none when the list is empty).
  Every row has the platform \<^verbatim>\<open>Twitter\<close>, the topic of its trend as \<open>topic_hashtag\<close>,
  \<open>views = 0\<close> and the run's \<open>version_id\<close>.
\<close>

theorem pipeline_one_row_per_trend_in_order:
  assumes "list_all raw_trend topics_list"
  shows "\<exists>rows. process_topics maxd polarity_of vid topics_list [] = Inr rows
           \<and> insert_fresh_data_only maxd polarity_of vid topics_list
               = (if topics_list = [] then None else Some rows)
           \<and> length rows = length topics_list
           \<and> map (\<lambda>r. Some (topic_hashtag r)) rows = map (\<lambda>d. d ''topic'') topics_list
           \<and> list_all (\<lambda>r. platform r = ''Twitter'' \<and> views r = 0 \<and> version_id r = vid) rows"
proof -
  obtain rows where rows:
    "process_topics maxd polarity_of vid topics_list [] = Inr ([] @ rows)"
    "length rows = length topics_list"
    "map (\<lambda>r. Some (topic_hashtag r)) rows = map (\<lambda>d. d ''topic'') topics_list"
    "list_all (\<lambda>r. platform r = ''Twitter'' \<and> views r = 0 \<and> version_id r = vid) rows"
    using process_topics_rows[OF assms] by blast
  show ?thesis
    by (rule exI[of _ rows]) (simp add: rows insert_fresh_data_only_def)
qed

theorem pipeline_one_row_per_trend_in_order_witness:
  "list_all raw_trend
     [[''topic'' \<mapsto> Str ''#A'', ''count'' \<mapsto> Str ''25K''],
      [''topic'' \<mapsto> Str ''#B'', ''count'' \<mapsto> Str ''N/A''],
      [''topic'' \<mapsto> Str ''#A'', ''count'' \<mapsto> Str ''25K'']]
   \<and> (\<exists>rows. insert_fresh_data_only 4300 (\<lambda>s. Inr (Finite 0)) ''run-1''
               [[''topic'' \<mapsto> Str ''#A'', ''count'' \<mapsto> Str ''25K''],
                [''topic'' \<mapsto> Str ''#B'', ''count'' \<mapsto> Str ''N/A''],
                [''topic'' \<mapsto> Str ''#A'', ''count'' \<mapsto> Str ''25K'']] = Some rows
          \<and> map topic_hashtag rows = [Str ''#A'', Str ''#B'', Str ''#A'']
          \<and> map platform rows = [''Twitter'', ''Twitter'', ''Twitter'']
          \<and> map views rows = [0, 0, 0]
          \<and> map version_id rows = [''run-1'', ''run-1'', ''run-1''])"
proof -
  let ?ts = "[[''topic'' \<mapsto> Str ''#A'', ''count'' \<mapsto> Str ''25K''],
      [''topic'' \<mapsto> Str ''#B'', ''count'' \<mapsto> Str ''N/A''],
      [''topic'' \<mapsto> Str ''#A'', ''count'' \<mapsto> Str ''25K'']] :: pydict list"
  have h: "list_all raw_trend ?ts" by (simp add: raw_trend_def)
  obtain rows where rows:
    "insert_fresh_data_only 4300 (\<lambda>s. Inr (Finite 0)) ''run-1'' ?ts = Some rows"
    "length rows = 3"
    "map (\<lambda>r. Some (topic_hashtag r)) rows = [Some (Str ''#A''), Some (Str ''#B''), Some (Str ''#A'')]"
    "list_all (\<lambda>r. platform r = ''Twitter'' \<and> views r = 0 \<and> version_id r = ''run-1'') rows"
    using pipeline_one_row_per_trend_in_order[OF h, of 4300 "\<lambda>s. Inr (Finite 0)" "''run-1''"]
    by auto
  obtain r1 r2 r3 where r: "rows = [r1, r2, r3]"
    using rows(2) by (auto simp: length_Suc_conv numeral_3_eq_3)
  show ?thesis
    using h rows r by simp
qed

section \<open>The content synthesizer\<close>

lemma is_prefix_append: "is_prefix k (k @ ys)"
  by (induction k) simp_all

lemma str_in_is_prefix: "is_prefix k s \<Longrightarrow> str_in k s"
  by (cases s; cases k) simp_all

lemma str_in_append: "str_in k (xs @ k @ ys)"
  by (induction xs) (simp_all add: str_in_is_prefix is_prefix_append)

lemma first_content_first_match:
  assumes "i < length kcs" "str_in (fst (kcs ! i)) hl"
    "\<not> list_ex (\<lambda>kc. str_in (fst kc) hl) (take i kcs)"
  shows "first_content kcs hl = Some (snd (kcs ! i))"
  using assms
proof (induction kcs arbitrary: i)
  case Nil
  then show ?case by simp
next
  case (Cons kc kcs)
  obtain key content where kc: "kc = (key, content)" by (cases kc)
  show ?case
  proof (cases i)
    case 0
    with Cons.prems show ?thesis by (simp add: kc)
  next
    case (Suc j)
    with Cons.prems have "j < length kcs" "str_in (fst (kcs ! j)) hl"
      "\<not> list_ex (\<lambda>kc. str_in (fst kc) hl) (take j kcs)" "\<not> str_in key hl"
      by (simp_all add: kc)
    with Cons.IH[of j] Suc show ?thesis by (simp add: kc)
  qed
qed

lemma first_content_no_match:
  "\<not> list_ex (\<lambda>kc. str_in (fst kc) hl) kcs \<Longrightarrow> first_content kcs hl = None"
  by (induction kcs) auto

lemma default_content:
  "map_of (sample_contents clean) ''default''
     = Some (''Trending discussion about '' @ clean
              @ ''. Join the conversation and share your thoughts.'')"
  by (simp add: sample_contents_def)

text \<open>
  C7, as amended. \<^verbatim>\<open>get_hashtag_post_content\<close> is a function of the topic string alone.
  With \<open>clean\<close> the topic without its \<^verbatim>\<open>#\<close> characters: when the key at position \<open>i\<close>
  of the mapping occurs in the lower-cased \<open>clean\<close> and no earlier key does, the result is
  the sentence of that key; when no key occurs, the result is the generic sentence, and
  the generic sentence contains \<open>clean\<close>, not the topic as it was given.
\<close>

theorem get_hashtag_post_content_first_match:
  assumes "clean = str_replace (CHR ''#'') [] h"
  shows "(i < length (sample_contents clean)
            \<and> str_in (fst (sample_contents clean ! i)) (str_lower clean)
            \<and> \<not> list_ex (\<lambda>kc. str_in (fst kc) (str_lower clean)) (take i (sample_contents clean))
          \<longrightarrow> get_hashtag_post_content (Str h) = Inr (snd (sample_contents clean ! i)))
       \<and> (\<not> list_ex (\<lambda>kc. str_in (fst kc) (str_lower clean)) (sample_contents clean)
          \<longrightarrow> get_hashtag_post_content (Str h)
                = Inr (''Trending discussion about '' @ clean
                        @ ''. Join the conversation and share your thoughts.''))
       \<and> str_in clean (''Trending discussion about '' @ clean
                        @ ''. Join the conversation and share your thoughts.'')
       \<and> (h' = h \<longrightarrow> get_hashtag_post_content (Str h') = get_hashtag_post_content (Str h))"
proof -
  have 1: "get_hashtag_post_content (Str h) = Inr (snd (sample_contents clean ! i))"
    if "i < length (sample_contents clean)"
      "str_in (fst (sample_contents clean ! i)) (str_lower clean)"
      "\<not> list_ex (\<lambda>kc. str_in (fst kc) (str_lower clean)) (take i (sample_contents clean))"
    using first_content_first_match[OF that]
    by (simp add: get_hashtag_post_content_def get_hashtag_post_content_try_def assms Let_def)
  have 2: "get_hashtag_post_content (Str h)
             = Inr (''Trending discussion about '' @ clean
                     @ ''. Join the conversation and share your thoughts.'')"
    if "\<not> list_ex (\<lambda>kc. str_in (fst kc) (str_lower clean)) (sample_contents clean)"
    using first_content_no_match[OF that] default_content[of clean]
    by (simp add: get_hashtag_post_content_def get_hashtag_post_content_try_def assms Let_def)
  have 3: "str_in clean (''Trending discussion about '' @ clean
                        @ ''. Join the conversation and share your thoughts.'')"
    by (rule str_in_append)
  show ?thesis using 1 2 3 by blast
qed

theorem get_hashtag_post_content_first_match_witness:
  "get_hashtag_post_content (Str ''#FloodElection'')
     = Inr ''Breaking: Major developments in FloodElection. Citizens actively participating in democratic process.''
   \<and> get_hashtag_post_content (Str ''#MumbaiFlood'')
     = Inr ''Emergency update on MumbaiFlood. Relief operations underway, stay safe and follow official guidelines.''
   \<and> get_hashtag_post_content (Str ''#Cricket'')
     = Inr ''Trending discussion about Cricket. Join the conversation and share your thoughts.''"
proof -
  have c1: "''FloodElection'' = str_replace (CHR ''#'') [] ''#FloodElection''" by code_simp
  have c2: "''MumbaiFlood'' = str_replace (CHR ''#'') [] ''#MumbaiFlood''" by code_simp
  have c3: "''Cricket'' = str_replace (CHR ''#'') [] ''#Cricket''" by code_simp
  have h1: "0 < length (sample_contents ''FloodElection'')
            \<and> str_in (fst (sample_contents ''FloodElection'' ! 0)) (str_lower ''FloodElection'')
            \<and> \<not> list_ex (\<lambda>kc. str_in (fst kc) (str_lower ''FloodElection''))
                  (take 0 (sample_contents ''FloodElection''))"
    by code_simp
  have h2: "1 < length (sample_contents ''MumbaiFlood'')
            \<and> str_in (fst (sample_contents ''MumbaiFlood'' ! 1)) (str_lower ''MumbaiFlood'')
            \<and> \<not> list_ex (\<lambda>kc. str_in (fst kc) (str_lower ''MumbaiFlood''))
                  (take 1 (sample_contents ''MumbaiFlood''))"
    by code_simp
  have h3: "\<not> list_ex (\<lambda>kc. str_in (fst kc) (str_lower ''Cricket'')) (sample_contents ''Cricket'')"
    by code_simp
  have v1: "snd (sample_contents ''FloodElection'' ! 0)
            = ''Breaking: Major developments in FloodElection. Citizens actively participating in democratic process.''"
    by code_simp
  have v2: "snd (sample_contents ''MumbaiFlood'' ! 1)
            = ''Emergency update on MumbaiFlood. Relief operations underway, stay safe and follow official guidelines.''"
    by code_simp
  show ?thesis
    using get_hashtag_post_content_first_match[OF c1, of 0 "''#FloodElection''"]
      get_hashtag_post_content_first_match[OF c2, of 1 "''#MumbaiFlood''"]
      get_hashtag_post_content_first_match[OF c3, of 0 "''#Cricket''"]
      h1 h2 h3 v1 v2
    by simp
qed

text \<open>
  The claim C7 as stated fails on the topic \<^verbatim>\<open>#Cricket\<close>: no key of the mapping occurs
  in it, and the sentence returned does not contain the topic as it was given, since the
  \<^verbatim>\<open>#\<close> was removed before the sentence was built.
\<close>

theorem fallback_lacks_original_topic:
  "first_content (sample_contents ''Cricket'') (str_lower ''Cricket'') = None
   \<and> get_hashtag_post_content (Str ''#Cricket'')
       = Inr ''Trending discussion about Cricket. Join the conversation and share your thoughts.''
   \<and> \<not> str_in ''#Cricket''
          ''Trending discussion about Cricket. Join the conversation and share your thoughts.''"
proof -
  have 1: "first_content (sample_contents ''Cricket'') (str_lower ''Cricket'') = None"
    by code_simp
  have 2: "get_hashtag_post_content (Str ''#Cricket'')
       = Inr ''Trending discussion about Cricket. Join the conversation and share your thoughts.''"
    by code_simp
  have 3: "\<not> str_in ''#Cricket''
          ''Trending discussion about Cricket. Join the conversation and share your thoughts.''"
    by code_simp
  show ?thesis using 1 2 3 by blast
qed


end
